theory Spec2Isabelle
  imports Main "HOL-Library.Word"
begin

unbundle bit_operations_syntax

section \<open>Data model\<close>

text \<open>
  Objects that the C++ code compares by pointer are given by their pointer value.
  An actor pointer is a 64-bit word (\<open>reinterpret_cast<std::size_t>\<close> of it enters
  the handler hash); \<open>std::size_t\<close> is a 64-bit word as well. A
  \<open>pt::time_duration\<close> is a number of ticks.
\<close>

type_synonym size_t = "64 word"
type_synonym timer_id_t = "32 word"
type_synonym time_duration = nat

text \<open>
  \<open>supervisor_ref\<close> stands for a \<open>supervisor_t &\<close>: the pointer of the
  supervisor object and the identity of the address it owns as an actor
  (\<open>supervisor.address\<close>, read through the reference by \<open>subscribe_actor\<close> and
  by the lifetime plugin).
\<close>

record supervisor_ref =
  sup_ptr :: size_t
  sup_address_id :: nat

text \<open>
  \<open>address_t\<close>: an identity and the back reference \<open>supervisor\<close> to the owning
  supervisor. Two \<open>address_ptr_t\<close> are equal when they point to the same object.
\<close>

record address_t =
  addr_id :: nat
  supervisor :: supervisor_ref

definition get_address :: "supervisor_ref \<Rightarrow> address_t" where
  "get_address r = \<lparr>addr_id = sup_address_id r, supervisor = r\<rparr>"

text \<open>\<open>actor_ref\<close> stands for an \<open>actor_base_t &\<close> or \<open>actor_ptr_t\<close>: the pointer
  and the actor's own \<open>address\<close>.\<close>

record actor_ref =
  actor_raw :: size_t
  address :: address_t

text \<open>\<open>std::type_index(typeid(Handler))\<close>: the type and its \<open>hash_code()\<close>. Equal
  types have equal hash codes; different types may share one.\<close>

record type_index =
  type_name :: string
  hash_code :: size_t

text \<open>
  What a handler wraps. \<open>Member f\<close> is a pointer to member function of the actor
  (\<open>handler.hpp\<close>); \<open>Response_lambda mt rid\<close> is the closure that
  \<open>request_builder_t<T>::install_handler\<close> subscribes: it expects messages of type
  \<open>mt\<close> (\<open>responce_message_t::message_type\<close>) and has captured \<open>request_id = rid\<close>.
\<close>

datatype entry_point = Member nat | Response_lambda nat timer_id_t

record handler_t =
  raw_actor_ptr :: size_t
  handler_type :: type_index
  handler :: entry_point
  precalc_hash :: size_t
  actor_ptr :: actor_ref

text \<open>\<open>subscription_point_t\<close>: the pair of an address and a handler.\<close>

record subscription_point_t =
  p_address :: address_t
  p_handler :: handler_t

text \<open>
  \<open>wrapped_request_t(request_id, imaginary_address, args...)\<close> and
  \<open>wrapped_res_t\<close>, built either as \<open>{error_code_t::request_timeout, req}\<close> by
  \<open>timeout\<close> or as \<open>(req, res_payload)\<close> by \<open>reply_to\<close>. The user's request
  and response payloads are numbers.
\<close>

record wrapped_request_t =
  request_id :: timer_id_t
  reply_to :: address_t
  request_args :: nat

datatype error_code_t = request_timeout

record wrapped_res_t =
  ec :: "error_code_t option"
  req :: wrapped_request_t
  res :: "nat option"

text \<open>The payloads of the messages the modelled code sends. A response carries the
  \<open>message_type\<close> tag of its \<open>responce_message_t\<close>.\<close>

datatype payload_t =
    Subscription_confirmation address_t handler_t
  | External_subscription address_t handler_t
  | Unsubscription_confirmation address_t handler_t
  | External_unsubscription address_t handler_t
  | Commit_unsubscription subscription_point_t
  | Request wrapped_request_t
  | Response nat wrapped_res_t

record message_t =
  m_address :: address_t
  payload :: payload_t

text \<open>
  The members of \<open>supervisor_t\<close> that the modelled functions read or write.
  \<open>self\<close> is the object itself (\<open>this\<close>, and the \<open>supervisor\<close> reference a
  supervisor holds as an actor). \<open>subscription_t\<close> is declared in subscription.h,
  which is not among the sources at hand; a subscription is the ordered list of handlers of the
  specification. \<open>timers\<close> is the state of the event loop adapter behind the pure
  virtual \<open>start_timer\<close> and \<open>cancel_timer\<close>: the armed timers and their
  durations. \<open>made_addresses\<close> counts the addresses \<open>make_address\<close> has created.
\<close>

record supervisor_t =
  self :: supervisor_ref
  effective_queue :: "message_t list"
  subscription_map :: "address_t \<rightharpoonup> handler_t list"
  last_req_id :: timer_id_t
  request_map :: "timer_id_t \<rightharpoonup> message_t"
  request_subscriptions :: "nat \<rightharpoonup> address_t"
  shutdown_timeout :: time_duration
  timers :: "timer_id_t \<rightharpoonup> time_duration"
  made_addresses :: nat

text \<open>The template parameter \<open>T\<close> of \<open>request_builder_t<T>\<close>, as far as the code
  uses it: \<open>responce_message_t::message_type\<close> and the type of the handler that wraps
  the response closure.\<close>

record request_traits_t =
  message_type :: nat
  lambda_type :: type_index

record request_builder_t =
  traits :: request_traits_t
  b_request_id :: timer_id_t
  destination :: address_t
  b_reply_to :: address_t
  do_install_handler :: bool
  imaginary_address :: address_t
  b_req :: wrapped_request_t

datatype state_t = NEW | INITIALIZING | OPERATIONAL | SHUTTING_DOWN | SHUT_DOWN

text \<open>The members of \<open>actor_base_t\<close> that the plugins touch; \<open>lifetime\<close> tells
  whether the pointer to the lifetime plugin is set.\<close>

record actor_base_t =
  state :: state_t
  init_request :: "message_t option"
  shutdown_request :: "message_t option"
  lifetime :: bool

record lifetime_plugin_t =
  points :: "subscription_point_t list"

text \<open>What the functions of the lifetime plugin act on: the plugin, its actor and
  the actor's supervisor.\<close>

record world_t =
  w_actor :: actor_base_t
  w_plugin :: lifetime_plugin_t
  w_sup :: supervisor_t

datatype processing_result_t = CONSUMED | FINISHED

datatype error = Assertion_failed | Shutdown_timer_expired

section \<open>handler.hpp\<close>

text \<open>The constructor \<open>handler_t(actor_base_t &actor, Handler &&handler_)\<close>;
  \<open>ti\<close> is \<open>typeid(Handler)\<close>.\<close>

definition handler_ctor :: "actor_ref \<Rightarrow> type_index \<Rightarrow> entry_point \<Rightarrow> handler_t" where
  "handler_ctor actor ti h =
     (let h1 = actor_raw actor;
          h2 = hash_code ti
      in \<lparr>raw_actor_ptr = actor_raw actor,
          handler_type = ti,
          handler = h,
          precalc_hash = h1 XOR (push_bit 1 h2),
          actor_ptr = actor\<rparr>)"

text \<open>\<open>handler_t::operator==\<close>: the actors differ, or the \<open>dynamic_cast\<close> to the
  same \<open>handler_t<Handler>\<close> fails, or the wrapped entry points are compared.\<close>

definition handler_eq :: "handler_t \<Rightarrow> handler_t \<Rightarrow> bool" where
  "handler_eq lhs rhs =
     (if raw_actor_ptr lhs \<noteq> raw_actor_ptr rhs then False
      else handler_type rhs = handler_type lhs \<and> handler rhs = handler lhs)"

text \<open>\<open>handler_t::hash()\<close> returns the stored hash.\<close>

definition hash :: "handler_t \<Rightarrow> size_t" where
  "hash h = precalc_hash h"

text \<open>\<open>std::hash<rotor::handler_ptr_t>::operator()\<close>:
  \<open>reinterpret_cast<size_t>\<close> of a \<open>size_t\<close> yields its operand.\<close>

definition std_hash :: "handler_t \<Rightarrow> size_t" where
  "std_hash h = hash h"

section \<open>supervisor.h\<close>

text \<open>\<open>wrap_handler(actor, handler)\<close>.\<close>

definition wrap_handler :: "actor_ref \<Rightarrow> type_index \<Rightarrow> entry_point \<Rightarrow> handler_t" where
  "wrap_handler actor ti h = handler_ctor actor ti h"

text \<open>\<open>supervisor_t::put\<close> and \<open>actor_base_t::send\<close> (which puts the new message
  into the queue of the actor's supervisor).\<close>

definition put :: "message_t \<Rightarrow> supervisor_t \<Rightarrow> supervisor_t" where
  "put message s = s\<lparr>effective_queue := effective_queue s @ [message]\<rparr>"

definition send :: "address_t \<Rightarrow> payload_t \<Rightarrow> supervisor_t \<Rightarrow> supervisor_t" where
  "send addr pl s = put \<lparr>m_address = addr, payload = pl\<rparr> s"

text \<open>
  Modelled from the spec: \<open>subscription_t::subscribe\<close> (subscription.h and its
  implementation are not among the sources at hand). The table maps an address to the ordered list
  of its handlers, in insertion order; subscribing appends.
\<close>

definition subscribe :: "handler_t \<Rightarrow> handler_t list \<Rightarrow> handler_t list" where
  "subscribe h hs = hs @ [h]"

text \<open>\<open>supervisor_t::subscribe_actor(addr, handler)\<close>. \<open>try_emplace\<close> leaves an
  existing subscription in place and otherwise inserts an empty one.\<close>

definition subscribe_actor :: "address_t \<Rightarrow> handler_t \<Rightarrow> supervisor_t \<Rightarrow> supervisor_t" where
  "subscribe_actor addr h s =
     (if sup_ptr (supervisor addr) = sup_ptr (self s) then
        let subs = (case subscription_map s addr of None \<Rightarrow> [] | Some hs \<Rightarrow> hs);
            s1 = s\<lparr>subscription_map := (subscription_map s)(addr \<mapsto> subscribe h subs)\<rparr>
        in send (address (actor_ptr h)) (Subscription_confirmation addr h) s1
      else send (get_address (supervisor addr)) (External_subscription addr h) s)"

text \<open>\<open>supervisor_t::unsubscribe_actor(addr, handler)\<close>, the template with a
  handler.\<close>

definition unsubscribe_actor :: "address_t \<Rightarrow> handler_t \<Rightarrow> supervisor_t \<Rightarrow> supervisor_t" where
  "unsubscribe_actor addr h s =
     (let dest = address (actor_ptr h) in
      if sup_ptr (supervisor addr) = sup_ptr (self s) then
        send dest (Unsubscription_confirmation addr h) s
      else send dest (External_unsubscription addr h) s)"

text \<open>The supervisor as an actor (\<open>*this\<close> passed to \<open>wrap_handler\<close>).\<close>

definition as_actor :: "supervisor_t \<Rightarrow> actor_ref" where
  "as_actor s = \<lparr>actor_raw = sup_ptr (self s), address = get_address (self s)\<rparr>"

text \<open>
  Modelled from the spec: \<open>supervisor_t::make_address\<close> (supervisor.cpp is not
  among the sources at hand). Allocation is local to the supervisor, and every address is a new
  object linked with it.
\<close>

definition make_address :: "supervisor_t \<Rightarrow> address_t \<times> supervisor_t" where
  "make_address s =
     (\<lparr>addr_id = made_addresses s, supervisor = self s\<rparr>,
      s\<lparr>made_addresses := Suc (made_addresses s)\<rparr>)"

text \<open>
  Modelled from the spec: the adapter's \<open>start_timer\<close> schedules a single-shot timer
  with the given id, \<open>cancel_timer\<close> cancels it (both are pure virtual in
  \<open>supervisor_t\<close>).
\<close>

definition start_timer :: "time_duration \<Rightarrow> timer_id_t \<Rightarrow> supervisor_t \<Rightarrow> supervisor_t" where
  "start_timer d timer_id s = s\<lparr>timers := (timers s)(timer_id \<mapsto> d)\<rparr>"

definition cancel_timer :: "timer_id_t \<Rightarrow> supervisor_t \<Rightarrow> supervisor_t" where
  "cancel_timer timer_id s = s\<lparr>timers := (timers s)(timer_id := None)\<rparr>"

definition shutdown_timer_id :: timer_id_t where
  "shutdown_timer_id = 0"

text \<open>The constructor of \<open>request_builder_t<T>\<close>, that is \<open>do_request<T>\<close>:
  \<open>++sup.last_req_id\<close> wraps around at 32 bits.\<close>

definition do_request ::
  "request_traits_t \<Rightarrow> address_t \<Rightarrow> address_t \<Rightarrow> nat \<Rightarrow> supervisor_t
     \<Rightarrow> request_builder_t \<times> supervisor_t" where
  "do_request T dst rto args s =
     (let rid = last_req_id s + 1;
          s1 = s\<lparr>last_req_id := rid\<rparr>
      in case request_subscriptions s1 (message_type T) of
           Some a \<Rightarrow>
             (\<lparr>traits = T, b_request_id = rid, destination = dst,
               b_reply_to = rto, do_install_handler = False, imaginary_address = a,
               b_req = \<lparr>request_id = rid, reply_to = a, request_args = args\<rparr>\<rparr>,
              s1)
         | None \<Rightarrow>
             (let (a, s2) = make_address s1;
                  s3 = s2\<lparr>request_subscriptions :=
                             (request_subscriptions s2)(message_type T \<mapsto> a)\<rparr>
              in (\<lparr>traits = T, b_request_id = rid, destination = dst,
                   b_reply_to = rto, do_install_handler = True, imaginary_address = a,
                   b_req = \<lparr>request_id = rid, reply_to = a, request_args = args\<rparr>\<rparr>,
                  s3)))"

text \<open>
  The closure of \<open>install_handler\<close>, with its captured \<open>request_id\<close>, applied to a
  response message: the new message goes to the address of the stored timeout
  message and takes the payload of the incoming one.
\<close>

definition response_lambda :: "timer_id_t \<Rightarrow> message_t \<Rightarrow> supervisor_t \<Rightarrow> supervisor_t" where
  "response_lambda rid msg s =
     (case request_map s rid of
        Some stored \<Rightarrow>
          (let s1 = cancel_timer rid s;
               s2 = send (m_address stored) (payload msg) s1
           in s2\<lparr>request_map := (request_map s2)(rid := None)\<rparr>)
      | None \<Rightarrow> s)"

text \<open>\<open>request_builder_t<T>::install_handler\<close>: \<open>sup.subscribe(lambda, address)\<close>
  is \<open>actor_base_t::subscribe(h, addr)\<close>, which wraps the closure for the supervisor
  as its actor and calls \<open>subscribe_actor\<close>.\<close>

definition install_handler :: "request_builder_t \<Rightarrow> supervisor_t \<Rightarrow> supervisor_t" where
  "install_handler b s =
     subscribe_actor (imaginary_address b)
       (wrap_handler (as_actor s) (lambda_type (traits b))
          (Response_lambda (message_type (traits b)) (b_request_id b))) s"

text \<open>\<open>request_builder_t<T>::timeout\<close>. \<open>emplace\<close> on the map keeps an entry that
  is already there.\<close>

definition timeout :: "time_duration \<Rightarrow> request_builder_t \<Rightarrow> supervisor_t \<Rightarrow> supervisor_t" where
  "timeout d b s =
     (let msg_request = \<lparr>m_address = destination b, payload = Request (b_req b)\<rparr>;
          msg_timeout = \<lparr>m_address = b_reply_to b,
                         payload = Response (message_type (traits b))
                           \<lparr>ec = Some request_timeout, req = b_req b, res = None\<rparr>\<rparr>;
          s1 = (if do_install_handler b then install_handler b s else s);
          s2 = (case request_map s1 (b_request_id b) of
                  None \<Rightarrow> s1\<lparr>request_map := (request_map s1)(b_request_id b \<mapsto> msg_timeout)\<rparr>
                | Some _ \<Rightarrow> s1);
          s3 = put msg_request s2
      in start_timer d (b_request_id b) s3)"

text \<open>\<open>actor.request<T>(destination, args).timeout(d)\<close>: the builder is made and
  its \<open>timeout\<close> called at once.\<close>

definition request ::
  "request_traits_t \<Rightarrow> address_t \<Rightarrow> address_t \<Rightarrow> nat \<Rightarrow> time_duration \<Rightarrow> supervisor_t
     \<Rightarrow> supervisor_t" where
  "request T dst rto args d s =
     (let (b, s1) = do_request T dst rto args s in timeout d b s1)"

text \<open>\<open>actor_base_t::reply_to(message, args...)\<close>: the message that answers a
  request, sent to the request's \<open>reply_to\<close> address.\<close>

definition reply_message :: "request_traits_t \<Rightarrow> wrapped_request_t \<Rightarrow> nat \<Rightarrow> message_t" where
  "reply_message T rq r =
     \<lparr>m_address = reply_to rq,
      payload = Response (message_type T) \<lparr>ec = None, req = rq, res = Some r\<rparr>\<rparr>"

section \<open>Dispatch and timers\<close>

text \<open>
  How the closure of \<open>install_handler\<close> is called: as \<open>handler_t::call\<close> does, the
  message's type is compared with the type the handler expects before the wrapped
  entry point runs. The member functions of user actors are outside this model: a
  \<open>Member\<close> handler leaves the supervisor as it is.
\<close>

definition call :: "handler_t \<Rightarrow> message_t \<Rightarrow> supervisor_t \<Rightarrow> supervisor_t" where
  "call h message s =
     (case handler h of
        Response_lambda mt rid \<Rightarrow>
          (case payload message of
             Response mt' r \<Rightarrow> if mt' = mt then response_lambda rid message s else s
           | _ \<Rightarrow> s)
      | Member f \<Rightarrow> s)"

text \<open>
  Modelled from the spec: \<open>supervisor_t::deliver_local\<close> (supervisor.cpp is not
  among the sources at hand) resolves the subscription set of the message's destination and invokes
  the handlers in registration order; a message to an address with no subscriber is
  dropped.
\<close>

definition deliver_local :: "message_t \<Rightarrow> supervisor_t \<Rightarrow> supervisor_t" where
  "deliver_local message s =
     (case subscription_map s (m_address message) of
        None \<Rightarrow> s
      | Some hs \<Rightarrow> fold (\<lambda>h. call h message) hs s)"

text \<open>
  Modelled from the spec: \<open>supervisor_t::on_timer_trigger\<close> (declared in
  supervisor.h, implemented in supervisor.cpp, which is not among the sources at hand). A timer is
  single-shot. When the shutdown timer fires the core reports a fatal error and
  aborts; when a request's timer fires, the supervisor takes the stored timeout
  message out of \<open>request_map\<close> and delivers it to the caller's address.
\<close>

definition on_timer_trigger :: "timer_id_t \<Rightarrow> supervisor_t \<Rightarrow> error + supervisor_t" where
  "on_timer_trigger timer_id s =
     (let s1 = s\<lparr>timers := (timers s)(timer_id := None)\<rparr> in
      if timer_id = shutdown_timer_id then Inl Shutdown_timer_expired
      else case request_map s1 timer_id of
             Some stored \<Rightarrow> Inr (put stored (s1\<lparr>request_map := (request_map s1)(timer_id := None)\<rparr>))
           | None \<Rightarrow> Inr s1)"

text \<open>
  Modelled from the spec: at shutdown initiation the supervisor arms a timer with
  the id \<open>shutdown_timer_id\<close> and its \<open>shutdown_timeout\<close>.
\<close>

definition start_shutdown_timer :: "supervisor_t \<Rightarrow> supervisor_t" where
  "start_shutdown_timer s = start_timer (shutdown_timeout s) shutdown_timer_id s"

text \<open>
  What happens to a supervisor between two points of rest: an actor issues
  \<open>request<T>(destination, args).timeout(d)\<close>, a message is delivered to the
  handlers of its destination, a timer fires, or shutdown starts.
\<close>

datatype event =
    Ev_request request_traits_t address_t address_t nat time_duration
  | Ev_deliver message_t
  | Ev_timer timer_id_t
  | Ev_shutdown

fun step :: "event \<Rightarrow> supervisor_t \<Rightarrow> error + supervisor_t" where
  "step (Ev_request T dst rto args d) s = Inr (request T dst rto args d s)"
| "step (Ev_deliver message) s = Inr (deliver_local message s)"
| "step (Ev_timer timer_id) s = on_timer_trigger timer_id s"
| "step Ev_shutdown s = Inr (start_shutdown_timer s)"

fun run :: "event list \<Rightarrow> supervisor_t \<Rightarrow> error + supervisor_t" where
  "run [] s = Inr s"
| "run (e # es) s = (case step e s of Inl err \<Rightarrow> Inl err | Inr s' \<Rightarrow> run es s')"

text \<open>
  A supervisor before its first request: the containers are default-constructed,
  hence empty. The initial \<open>last_req_id\<close> and the number of addresses made so far
  are set by code that is not among the sources at hand.
\<close>

definition new_supervisor ::
  "supervisor_ref \<Rightarrow> timer_id_t \<Rightarrow> nat \<Rightarrow> time_duration \<Rightarrow> supervisor_t" where
  "new_supervisor r first_id n d =
     \<lparr>self = r, effective_queue = [], subscription_map = Map.empty, last_req_id = first_id,
      request_map = Map.empty, request_subscriptions = Map.empty, shutdown_timeout = d,
      timers = Map.empty, made_addresses = n\<rparr>"

section \<open>plugin/init\_shutdown.cpp\<close>

text \<open>
  \<open>actor_base_t::init_continue\<close> and \<open>shutdown_continue\<close> are implemented in
  actor\_base.cpp, which is not among the sources at hand: each is a parameter, the continuation
  that receives the actor as the plugin leaves it.

  \<open>init_shutdown_plugin_t::on_init\<close>: the assertion and the assignment of the state
  are commented out in the source.
\<close>

definition on_init :: "(actor_base_t \<Rightarrow> 'r) \<Rightarrow> message_t \<Rightarrow> actor_base_t \<Rightarrow> 'r" where
  "on_init init_continue msg actor = init_continue (actor\<lparr>init_request := Some msg\<rparr>)"

text \<open>\<open>init_shutdown_plugin_t::on_shutdown\<close>; a failed \<open>assert\<close> is an error.\<close>

definition on_shutdown ::
  "(actor_base_t \<Rightarrow> 'r) \<Rightarrow> message_t \<Rightarrow> actor_base_t \<Rightarrow> error + 'r" where
  "on_shutdown shutdown_continue msg actor =
     (if state actor \<noteq> OPERATIONAL then Inl Assertion_failed
      else Inr (shutdown_continue
                  (actor\<lparr>state := SHUTTING_DOWN, shutdown_request := Some msg\<rparr>)))"

section \<open>plugin/lifetime.cpp\<close>

text \<open>\<open>operator==\<close> of \<open>subscription_point_t\<close> is declared outside the sources at hand; points are
  compared as \<open>find_subscription\<close> compares them.\<close>

definition point_eq :: "subscription_point_t \<Rightarrow> subscription_point_t \<Rightarrow> bool" where
  "point_eq a b = (p_address a = p_address b \<and> handler_eq (p_handler a) (p_handler b))"

text \<open>\<open>lifetime_plugin_t::handle_subscription\<close>: \<open>points.push_back\<close>.\<close>

definition handle_subscription :: "subscription_point_t \<Rightarrow> world_t \<Rightarrow> processing_result_t \<times> world_t" where
  "handle_subscription point w =
     (CONSUMED, w\<lparr>w_plugin := (w_plugin w)\<lparr>points := points (w_plugin w) @ [point]\<rparr>\<rparr>)"

text \<open>
  A reverse iterator is given by the position \<open>k\<close> of its base: it points to the
  element \<open>k - 1\<close>, \<open>rbegin\<close> is \<open>length ps\<close>, \<open>rend\<close> is \<open>0\<close>, and \<open>++\<close> moves it
  to \<open>k - 1\<close>.

  \<open>unsubscribe_from k ps\<close> is the loop of \<open>lifetime_plugin_t::unsubscribe\<close> with
  the iterator at \<open>k\<close>.
\<close>

fun unsubscribe_from :: "nat \<Rightarrow> subscription_point_t list \<Rightarrow> supervisor_t \<Rightarrow> supervisor_t" where
  "unsubscribe_from 0 ps s = s"
| "unsubscribe_from (Suc k) ps s =
     unsubscribe_from k ps (unsubscribe_actor (p_address (ps ! k)) (p_handler (ps ! k)) s)"

definition unsubscribe :: "world_t \<Rightarrow> world_t" where
  "unsubscribe w =
     w\<lparr>w_sup := unsubscribe_from (length (points (w_plugin w))) (points (w_plugin w)) (w_sup w)\<rparr>"

text \<open>\<open>lifetime_plugin_t::handle_shutdown\<close>.\<close>

definition handle_shutdown :: "world_t \<Rightarrow> bool \<times> world_t" where
  "handle_shutdown w =
     (if points (w_plugin w) = [] then (True, w)
      else (False, unsubscribe w))"

text \<open>\<open>std::find(points.rbegin(), points.rend(), point)\<close> with the iterator at
  \<open>k\<close>: the index of the element found (\<open>--rit.base()\<close>), or \<open>None\<close> for
  \<open>rend\<close>.\<close>

fun rfind :: "nat \<Rightarrow> subscription_point_t list \<Rightarrow> subscription_point_t \<Rightarrow> nat option" where
  "rfind 0 ps point = None"
| "rfind (Suc k) ps point = (if point_eq (ps ! k) point then Some k else rfind k ps point)"

text \<open>
  \<open>lifetime_plugin_t::remove_subscription\<close>. \<open>shutdown_continue\<close> of the actor
  and \<open>plugin_t::deactivate\<close> of the base class are not among the sources at hand: both are
  parameters.
\<close>

definition remove_subscription ::
  "(world_t \<Rightarrow> world_t) \<Rightarrow> (world_t \<Rightarrow> world_t) \<Rightarrow> subscription_point_t \<Rightarrow> world_t
     \<Rightarrow> error + processing_result_t \<times> world_t" where
  "remove_subscription shutdown_continue deactivate point w =
     (let ps = points (w_plugin w) in
      case rfind (length ps) ps point of
        None \<Rightarrow> Inl Assertion_failed
      | Some i \<Rightarrow>
          (let w1 = w\<lparr>w_plugin := (w_plugin w)\<lparr>points := take i ps @ drop (Suc i) ps\<rparr>\<rparr> in
           if points (w_plugin w1) = [] then
             (let w2 = shutdown_continue w1;
                  w3 = w2\<lparr>w_actor := (w_actor w2)\<lparr>lifetime := False\<rparr>\<rparr>
              in Inr (FINISHED, deactivate w3))
           else Inr (CONSUMED, w1)))"

text \<open>\<open>lifetime_plugin_t::handle_unsubscription_external\<close>; \<open>actor->send\<close> puts
  the message into the queue of the actor's supervisor.\<close>

definition handle_unsubscription_external ::
  "(world_t \<Rightarrow> world_t) \<Rightarrow> (world_t \<Rightarrow> world_t) \<Rightarrow> subscription_point_t \<Rightarrow> world_t
     \<Rightarrow> error + processing_result_t \<times> world_t" where
  "handle_unsubscription_external shutdown_continue deactivate point w =
     (let sup_addr = get_address (supervisor (p_address point));
          w1 = w\<lparr>w_sup := send sup_addr (Commit_unsubscription point) (w_sup w)\<rparr>
      in remove_subscription shutdown_continue deactivate point w1)"

section \<open>Notions used by the statements\<close>

text \<open>The handlers subscribed on an address, in their order.\<close>

definition handlers_on :: "supervisor_t \<Rightarrow> address_t \<Rightarrow> handler_t list" where
  "handlers_on s addr = (case subscription_map s addr of None \<Rightarrow> [] | Some hs \<Rightarrow> hs)"

text \<open>Whether an address is owned by the supervisor (the test of \<open>subscribe_actor\<close>
  and \<open>unsubscribe_actor\<close>).\<close>

definition is_local :: "supervisor_t \<Rightarrow> address_t \<Rightarrow> bool" where
  "is_local s addr = (sup_ptr (supervisor addr) = sup_ptr (self s))"

text \<open>The message by which the supervisor \<open>s\<close> starts the unsubscription of a
  point.\<close>

definition unsubscription_message :: "supervisor_t \<Rightarrow> subscription_point_t \<Rightarrow> message_t" where
  "unsubscription_message s p =
     \<lparr>m_address = address (actor_ptr (p_handler p)),
      payload = (if is_local s (p_address p)
                 then Unsubscription_confirmation (p_address p) (p_handler p)
                 else External_unsubscription (p_address p) (p_handler p))\<rparr>"

text \<open>What the holder of the address \<open>caller\<close> gets to see for the request \<open>rid\<close>:
  the responses addressed to it that carry that request, in the order in which they
  were put into the queue.\<close>

definition observed :: "address_t \<Rightarrow> timer_id_t \<Rightarrow> supervisor_t \<Rightarrow> wrapped_res_t list" where
  "observed caller rid s =
     concat (map (\<lambda>m. case payload m of
                         Response mt r \<Rightarrow>
                           if m_address m = caller \<and> request_id (req r) = rid then [r] else []
                       | _ \<Rightarrow> [])
                 (effective_queue s))"

text \<open>The response types of the requests among the events.\<close>

fun requested_types :: "event list \<Rightarrow> nat list" where
  "requested_types [] = []"
| "requested_types (Ev_request T dst rto args d # es) = message_type T # requested_types es"
| "requested_types (e # es) = requested_types es"

text \<open>An id other than \<open>shutdown_timer_id\<close> has an entry in \<open>request_map\<close>
  exactly when a timer with that id is armed.\<close>

definition timer_inv :: "supervisor_t \<Rightarrow> bool" where
  "timer_inv s =
     (\<forall>rid. rid \<noteq> shutdown_timer_id \<longrightarrow> (request_map s rid = None) = (timers s rid = None))"

text \<open>
  The bookkeeping of the reply addresses, for a supervisor that had made \<open>n\<close>
  addresses before its first request: one address has been made for every cached
  response type; a cached address is owned by the supervisor, was made by it, and has
  exactly one handler, the response closure for that type; and every address of the
  supervisor that has subscribers was made by it.
\<close>

definition resp_inv :: "nat \<Rightarrow> supervisor_t \<Rightarrow> bool" where
  "resp_inv n s =
     (finite (dom (request_subscriptions s))
      \<and> made_addresses s = n + card (dom (request_subscriptions s))
      \<and> (\<forall>mt a. request_subscriptions s mt = Some a \<longrightarrow>
             supervisor a = self s \<and> addr_id a < made_addresses s
             \<and> (\<exists>h rid. subscription_map s a = Some [h] \<and> handler h = Response_lambda mt rid))
      \<and> (\<forall>a hs. subscription_map s a = Some hs \<longrightarrow> supervisor a = self s \<longrightarrow>
             addr_id a < made_addresses s))"

section \<open>Sample objects\<close>

definition sup_1 :: supervisor_ref where
  "sup_1 = \<lparr>sup_ptr = 4096, sup_address_id = 0\<rparr>"

definition sup_2 :: supervisor_ref where
  "sup_2 = \<lparr>sup_ptr = 8192, sup_address_id = 0\<rparr>"

text \<open>Two actors of the first supervisor and an address of the second.\<close>

definition actor_A :: actor_ref where
  "actor_A = \<lparr>actor_raw = 4352, address = \<lparr>addr_id = 1, supervisor = sup_1\<rparr>\<rparr>"

definition actor_B :: actor_ref where
  "actor_B = \<lparr>actor_raw = 4608, address = \<lparr>addr_id = 2, supervisor = sup_1\<rparr>\<rparr>"

definition foreign_addr :: address_t where
  "foreign_addr = \<lparr>addr_id = 7, supervisor = sup_2\<rparr>"

definition on_ping :: type_index where
  "on_ping = \<lparr>type_name = ''void (pinger_t::*)(message_t<ping_t> &) noexcept'', hash_code = 5\<rparr>"

definition handler_A :: handler_t where
  "handler_A = wrap_handler actor_A on_ping (Member 1)"

definition point_local :: subscription_point_t where
  "point_local = \<lparr>p_address = address actor_A, p_handler = handler_A\<rparr>"

definition point_foreign :: subscription_point_t where
  "point_foreign = \<lparr>p_address = foreign_addr, p_handler = handler_A\<rparr>"

text \<open>The first supervisor after it has made its own address and those of the two
  actors.\<close>

definition supervisor_1 :: supervisor_t where
  "supervisor_1 = new_supervisor sup_1 0 3 100"

definition ping_traits :: request_traits_t where
  "ping_traits = \<lparr>message_type = 42, lambda_type = \<lparr>type_name = ''lambda<ping>'', hash_code = 9\<rparr>\<rparr>"

definition pong_traits :: request_traits_t where
  "pong_traits = \<lparr>message_type = 43, lambda_type = \<lparr>type_name = ''lambda<pong>'', hash_code = 11\<rparr>\<rparr>"

text \<open>The address that the first request of \<open>supervisor_1\<close> allocates.\<close>

definition imaginary_1 :: address_t where
  "imaginary_1 = \<lparr>addr_id = 3, supervisor = sup_1\<rparr>"

text \<open>Two requests of actor A to actor B with the same response type, and the
  answers of B to them.\<close>

definition request_1 :: event where
  "request_1 = Ev_request ping_traits (address actor_B) (address actor_A) 10 50"

definition request_2 :: event where
  "request_2 = Ev_request ping_traits (address actor_B) (address actor_A) 20 50"

definition reply_1 :: message_t where
  "reply_1 = reply_message ping_traits \<lparr>request_id = 1, reply_to = imaginary_1, request_args = 10\<rparr> 11"

definition reply_2 :: message_t where
  "reply_2 = reply_message ping_traits \<lparr>request_id = 2, reply_to = imaginary_1, request_args = 20\<rparr> 21"

definition lifecycle_msg :: message_t where
  "lifecycle_msg =
     \<lparr>m_address = address actor_A,
      payload = Request \<lparr>request_id = 1, reply_to = imaginary_1, request_args = 0\<rparr>\<rparr>"

definition actor_in :: "state_t \<Rightarrow> actor_base_t" where
  "actor_in st = \<lparr>state = st, init_request = None, shutdown_request = None, lifetime = True\<rparr>"

definition world_1 :: "subscription_point_t list \<Rightarrow> world_t" where
  "world_1 ps = \<lparr>w_actor = actor_in SHUTTING_DOWN, w_plugin = \<lparr>points = ps\<rparr>, w_sup = supervisor_1\<rparr>"

text \<open>A run of the first supervisor: two requests with one response type and one
  with another, the answer to the second request, the start of shutdown, and the
  timer of the second request.\<close>

definition sample_events :: "event list" where
  "sample_events =
     [request_1, request_2, Ev_request pong_traits (address actor_B) (address actor_A) 30 50,
      Ev_deliver reply_2, Ev_shutdown, Ev_timer 2]"

section \<open>Facts about the sample objects\<close>

lemma sample_local: "is_local supervisor_1 (address actor_A)"
  by (simp add: is_local_def supervisor_1_def new_supervisor_def actor_A_def)

lemma sample_foreign: "\<not> is_local supervisor_1 foreign_addr"
  by (simp add: is_local_def supervisor_1_def new_supervisor_def foreign_addr_def sup_1_def sup_2_def)

lemma sample_foreign_owner: "supervisor foreign_addr = sup_2"
  by (simp add: foreign_addr_def)

lemma sample_handler_actor: "actor_ptr handler_A = actor_A"
  by (simp add: handler_A_def wrap_handler_def handler_ctor_def)

lemma sample_supervisor_empty:
  "effective_queue supervisor_1 = []" "subscription_map supervisor_1 = Map.empty"
  by (simp_all add: supervisor_1_def new_supervisor_def)

lemmas sample_defs = supervisor_1_def new_supervisor_def request_1_def request_2_def reply_1_def
  reply_2_def ping_traits_def actor_A_def actor_B_def sup_1_def imaginary_1_def reply_message_def

lemmas op_defs = request_def do_request_def timeout_def install_handler_def subscribe_actor_def
  make_address_def start_timer_def cancel_timer_def put_def send_def subscribe_def wrap_handler_def
  handler_ctor_def as_actor_def get_address_def deliver_local_def call_def response_lambda_def
  on_timer_trigger_def start_shutdown_timer_def shutdown_timer_id_def

section \<open>Handler hash\<close>

text \<open>
  C10. Two handlers built by the constructor that compare equal with
  \<open>operator==\<close> (same actor, same entry point) get the same value from
  \<open>std::hash<handler_ptr_t>\<close>, and that value is the hash the constructor has
  precomputed from the actor pointer and the hash code of the entry point's type,
  \<open>h1 ^ (h2 << 1)\<close>.
\<close>

theorem std_hash_of_equal_handlers:
  assumes "handler_eq (handler_ctor a ti f) (handler_ctor a' ti' f')"
  shows "std_hash (handler_ctor a ti f) = std_hash (handler_ctor a' ti' f')
       \<and> std_hash (handler_ctor a ti f) = precalc_hash (handler_ctor a ti f)
       \<and> std_hash (handler_ctor a ti f) = actor_raw a XOR push_bit 1 (hash_code ti)"
  using assms
  by (simp add: handler_eq_def handler_ctor_def std_hash_def hash_def split: if_splits)

text \<open>The handler of actor A for \<open>on_ping\<close>: pointer \<open>0x1100\<close>, type hash code 5.\<close>

theorem std_hash_of_equal_handlers_witness:
  "handler_eq (handler_ctor actor_A on_ping (Member 1)) (handler_ctor actor_A on_ping (Member 1))
   \<and> std_hash (handler_ctor actor_A on_ping (Member 1)) = 4362"
proof -
  have eq: "handler_eq (handler_ctor actor_A on_ping (Member 1)) (handler_ctor actor_A on_ping (Member 1))"
    by (simp add: handler_eq_def)
  have "std_hash (handler_ctor actor_A on_ping (Member 1)) =
      actor_raw actor_A XOR push_bit 1 (hash_code on_ping)"
    using std_hash_of_equal_handlers [OF eq] by blast
  also have "\<dots> = 4362"
    by (simp add: actor_A_def on_ping_def)
  finally show ?thesis using eq by simp
qed

section \<open>Subscription\<close>

text \<open>
  C5. \<open>subscribe_actor(addr, handler)\<close>: when the address is owned by this
  supervisor, the handler is appended to the handlers subscribed on the address and a
  subscription confirmation carrying the address and the handler is sent to the
  address of the handler's actor; otherwise an external subscription request carrying
  the address and the handler is sent to the address of the owning supervisor.
  Nothing else changes.
\<close>

theorem subscribe_actor_local_or_foreign:
  "subscribe_actor addr h s =
     (if is_local s addr
      then s\<lparr>subscription_map := (subscription_map s)(addr \<mapsto> handlers_on s addr @ [h]),
             effective_queue := effective_queue s @
               [\<lparr>m_address = address (actor_ptr h), payload = Subscription_confirmation addr h\<rparr>]\<rparr>
      else s\<lparr>effective_queue := effective_queue s @
               [\<lparr>m_address = get_address (supervisor addr), payload = External_subscription addr h\<rparr>]\<rparr>)"
  by (simp add: subscribe_actor_def is_local_def handlers_on_def send_def put_def subscribe_def Let_def)

text \<open>Actor A subscribes its handler on its own address and on an address of the
  second supervisor.\<close>

theorem subscribe_actor_local_or_foreign_witness:
  "is_local supervisor_1 (address actor_A)
   \<and> handlers_on (subscribe_actor (address actor_A) handler_A supervisor_1) (address actor_A) = [handler_A]
   \<and> effective_queue (subscribe_actor (address actor_A) handler_A supervisor_1) =
       [\<lparr>m_address = address actor_A, payload = Subscription_confirmation (address actor_A) handler_A\<rparr>]
   \<and> \<not> is_local supervisor_1 foreign_addr
   \<and> subscription_map (subscribe_actor foreign_addr handler_A supervisor_1) = Map.empty
   \<and> effective_queue (subscribe_actor foreign_addr handler_A supervisor_1) =
       [\<lparr>m_address = get_address sup_2, payload = External_subscription foreign_addr handler_A\<rparr>]"
proof -
  have l: "subscribe_actor (address actor_A) handler_A supervisor_1 =
      supervisor_1\<lparr>subscription_map :=
          (subscription_map supervisor_1)(address actor_A \<mapsto> handlers_on supervisor_1 (address actor_A) @ [handler_A]),
        effective_queue := effective_queue supervisor_1 @
          [\<lparr>m_address = address (actor_ptr handler_A),
            payload = Subscription_confirmation (address actor_A) handler_A\<rparr>]\<rparr>"
    using subscribe_actor_local_or_foreign [of "address actor_A" handler_A supervisor_1] sample_local
    by simp
  have f: "subscribe_actor foreign_addr handler_A supervisor_1 =
      supervisor_1\<lparr>effective_queue := effective_queue supervisor_1 @
          [\<lparr>m_address = get_address (supervisor foreign_addr),
            payload = External_subscription foreign_addr handler_A\<rparr>]\<rparr>"
    using subscribe_actor_local_or_foreign [of foreign_addr handler_A supervisor_1] sample_foreign
    by simp
  show ?thesis
    unfolding l f
    using sample_local sample_foreign
    by (simp add: sample_handler_actor sample_supervisor_empty handlers_on_def sample_foreign_owner)
qed

section \<open>Lifecycle\<close>

text \<open>
  C7, as the code has it. In whatever state the actor is, \<open>on_init\<close> stores the
  request in the \<open>init_request\<close> slot and continues the initialization; it neither
  checks nor changes the state: \<open>init_continue\<close> finds the state the actor had
  before, and the request in the slot.
\<close>

theorem on_init_keeps_state:
  "on_init k msg actor = k (actor\<lparr>init_request := Some msg\<rparr>)
   \<and> on_init state msg actor = state actor
   \<and> on_init init_request msg actor = Some msg"
  by (simp add: on_init_def)

text \<open>
  The claim as stated fails: for an actor in \<open>NEW\<close>, the state at the call of
  \<open>init_continue\<close> is still \<open>NEW\<close>, and for an actor in \<open>OPERATIONAL\<close> the
  request is stored and the initialization continued as well.
\<close>

theorem on_init_no_transition:
  "on_init state lifecycle_msg (actor_in NEW) = NEW
   \<and> on_init state lifecycle_msg (actor_in OPERATIONAL) = OPERATIONAL
   \<and> on_init init_request lifecycle_msg (actor_in OPERATIONAL) = Some lifecycle_msg"
  by (simp add: on_init_def actor_in_def)

text \<open>
  C8, as the code has it. For an actor in \<open>OPERATIONAL\<close>, \<open>on_shutdown\<close> sets the
  state to \<open>SHUTTING_DOWN\<close>, stores the request in the \<open>shutdown_request\<close> slot and
  continues the shutdown. In every other state, \<open>INITIALIZING\<close> included, the
  assertion that guards it fails and nothing else happens.
\<close>

theorem on_shutdown_guard:
  "(state actor = OPERATIONAL \<longrightarrow>
      on_shutdown k msg actor =
        Inr (k (actor\<lparr>state := SHUTTING_DOWN, shutdown_request := Some msg\<rparr>)))
   \<and> (state actor \<noteq> OPERATIONAL \<longrightarrow> on_shutdown k msg actor = Inl Assertion_failed)"
  by (simp add: on_shutdown_def)

theorem on_shutdown_guard_witness:
  "state (actor_in OPERATIONAL) = OPERATIONAL
   \<and> on_shutdown state lifecycle_msg (actor_in OPERATIONAL) = Inr SHUTTING_DOWN
   \<and> state (actor_in NEW) \<noteq> OPERATIONAL
   \<and> on_shutdown state lifecycle_msg (actor_in NEW) = Inl Assertion_failed"
proof -
  have op: "state (actor_in OPERATIONAL) = OPERATIONAL" and new: "state (actor_in NEW) \<noteq> OPERATIONAL"
    by (simp_all add: actor_in_def)
  from on_shutdown_guard [of "actor_in OPERATIONAL" state lifecycle_msg] op
  have 1: "on_shutdown state lifecycle_msg (actor_in OPERATIONAL) = Inr SHUTTING_DOWN"
    by simp
  from on_shutdown_guard [of "actor_in NEW" state lifecycle_msg] new
  have 2: "on_shutdown state lifecycle_msg (actor_in NEW) = Inl Assertion_failed"
    by blast
  from op new 1 2 show ?thesis by blast
qed

text \<open>
  The claim as stated fails: a shutdown request that reaches an actor in
  \<open>INITIALIZING\<close> fails the assertion, while the same request is accepted in
  \<open>OPERATIONAL\<close>.
\<close>

theorem on_shutdown_while_initializing:
  "on_shutdown state lifecycle_msg (actor_in INITIALIZING) = Inl Assertion_failed
   \<and> on_shutdown state lifecycle_msg (actor_in OPERATIONAL) = Inr SHUTTING_DOWN"
  by (simp add: on_shutdown_def actor_in_def)

section \<open>Shutdown of the lifetime plugin\<close>

lemma unsubscribe_actor_unfolded:
  "unsubscribe_actor (p_address p) (p_handler p) s =
     s\<lparr>effective_queue := effective_queue s @ [unsubscription_message s p]\<rparr>"
  by (simp add: unsubscribe_actor_def unsubscription_message_def is_local_def send_def put_def Let_def)

lemma unsubscription_message_queue [simp]:
  "unsubscription_message (s\<lparr>effective_queue := q\<rparr>) p = unsubscription_message s p"
  by (simp add: unsubscription_message_def is_local_def)

lemma unsubscribe_from_fold:
  "k \<le> length ps \<Longrightarrow>
   unsubscribe_from k ps s =
     fold (\<lambda>p. unsubscribe_actor (p_address p) (p_handler p)) (rev (take k ps)) s"
proof (induction k arbitrary: s)
  case 0
  then show ?case by simp
next
  case (Suc k)
  then have "take (Suc k) ps = take k ps @ [ps ! k]"
    by (simp add: take_Suc_conv_app_nth)
  with Suc show ?case by simp
qed

lemma fold_unsubscribe_queue:
  "fold (\<lambda>p. unsubscribe_actor (p_address p) (p_handler p)) ps s =
     s\<lparr>effective_queue := effective_queue s @ map (unsubscription_message s) ps\<rparr>"
proof (induction ps arbitrary: s)
  case Nil
  then show ?case by simp
next
  case (Cons p ps)
  let ?f = "\<lambda>p. unsubscribe_actor (p_address p) (p_handler p)"
  let ?s = "unsubscribe_actor (p_address p) (p_handler p) s"
  have "fold ?f (p # ps) s = fold ?f ps ?s"
    by simp
  also have "\<dots> = ?s\<lparr>effective_queue := effective_queue ?s @ map (unsubscription_message ?s) ps\<rparr>"
    by (rule Cons.IH)
  also have "\<dots> = s\<lparr>effective_queue := effective_queue s @ map (unsubscription_message s) (p # ps)\<rparr>"
    by (simp add: unsubscribe_actor_unfolded)
  finally show ?case .
qed

text \<open>
  C9. \<open>lifetime_plugin_t::handle_shutdown\<close> returns true exactly when the recorded
  points are empty, and then does nothing. Otherwise it returns false after calling
  \<open>unsubscribe_actor\<close> for every recorded point, the last registered first: the
  messages it leaves in the queue are those of the points in reverse order. A point
  is registered by \<open>handle_subscription\<close> at the end of the recorded points.
\<close>

theorem handle_shutdown_reverse_order:
  "(points (w_plugin w) = [] \<longrightarrow> handle_shutdown w = (True, w))
   \<and> (points (w_plugin w) \<noteq> [] \<longrightarrow>
        handle_shutdown w =
          (False, w\<lparr>w_sup := fold (\<lambda>p. unsubscribe_actor (p_address p) (p_handler p))
                               (rev (points (w_plugin w))) (w_sup w)\<rparr>))
   \<and> fst (handle_shutdown w) = (points (w_plugin w) = [])
   \<and> effective_queue (w_sup (snd (handle_shutdown w))) =
       effective_queue (w_sup w) @ map (unsubscription_message (w_sup w)) (rev (points (w_plugin w)))
   \<and> points (w_plugin (snd (handle_subscription p w))) = points (w_plugin w) @ [p]"
  by (simp add: handle_shutdown_def unsubscribe_def unsubscribe_from_fold fold_unsubscribe_queue
      handle_subscription_def)

text \<open>An actor with no point, and actor A with a point on its own address recorded
  first and a point on a foreign address recorded second.\<close>

theorem handle_shutdown_reverse_order_witness:
  "handle_shutdown (world_1 []) = (True, world_1 [])
   \<and> points (w_plugin (world_1 [point_local, point_foreign])) \<noteq> []
   \<and> fst (handle_shutdown (world_1 [point_local, point_foreign])) = False
   \<and> effective_queue (w_sup (snd (handle_shutdown (world_1 [point_local, point_foreign])))) =
       [\<lparr>m_address = address actor_A, payload = External_unsubscription foreign_addr handler_A\<rparr>,
        \<lparr>m_address = address actor_A, payload = Unsubscription_confirmation (address actor_A) handler_A\<rparr>]"
proof -
  have e: "points (w_plugin (world_1 [])) = []"
    and n: "points (w_plugin (world_1 [point_local, point_foreign])) \<noteq> []"
    by (simp_all add: world_1_def)
  have 1: "handle_shutdown (world_1 []) = (True, world_1 [])"
    using handle_shutdown_reverse_order [of "world_1 []"] e by blast
  have 2: "fst (handle_shutdown (world_1 [point_local, point_foreign])) = False"
    using handle_shutdown_reverse_order [of "world_1 [point_local, point_foreign]"] n by simp
  have "effective_queue (w_sup (snd (handle_shutdown (world_1 [point_local, point_foreign])))) =
      effective_queue (w_sup (world_1 [point_local, point_foreign])) @
      map (unsubscription_message (w_sup (world_1 [point_local, point_foreign])))
        (rev (points (w_plugin (world_1 [point_local, point_foreign]))))"
    using handle_shutdown_reverse_order [of "world_1 [point_local, point_foreign]"] by blast
  also have "\<dots> =
      [\<lparr>m_address = address actor_A, payload = External_unsubscription foreign_addr handler_A\<rparr>,
       \<lparr>m_address = address actor_A, payload = Unsubscription_confirmation (address actor_A) handler_A\<rparr>]"
    using sample_local sample_foreign
    by (simp add: world_1_def unsubscription_message_def point_local_def point_foreign_def
        sample_handler_actor sample_supervisor_empty)
  finally show ?thesis using 1 2 n by blast
qed

section \<open>Unsubscription\<close>

lemma rfind_None: "rfind k ps point = None \<longleftrightarrow> (\<forall>j<k. \<not> point_eq (ps ! j) point)"
  by (induction k) (auto simp add: less_Suc_eq)

lemma rfind_Some:
  "rfind k ps point = Some i \<longleftrightarrow>
     i < k \<and> point_eq (ps ! i) point \<and> (\<forall>j. i < j \<and> j < k \<longrightarrow> \<not> point_eq (ps ! j) point)"
proof (induction k)
  case 0
  then show ?case by simp
next
  case (Suc k)
  show ?case
  proof (cases "point_eq (ps ! k) point")
    case True
    then show ?thesis
      by (auto simp add: less_Suc_eq)
  next
    case False
    then show ?thesis
      using Suc by (auto simp add: less_Suc_eq)
  qed
qed

text \<open>
  What the code does on unsubscription. \<open>unsubscribe_actor(addr, handler)\<close> sends
  one message to the address of the handler's own actor: the unsubscription confirmation when
  the address is local, the external unsubscription request when it is foreign. When
  the lifetime plugin of that actor handles the external request, it sends a commit
  message carrying the point to the address of the supervisor that owns the point's
  address, and removes the last recorded point equal to it (an assertion fails when
  there is none); when no point is left it continues the shutdown and is done.
\<close>

theorem unsubscribe_actor_then_commit:
  "unsubscribe_actor addr h s =
     s\<lparr>effective_queue := effective_queue s @
         [\<lparr>m_address = address (actor_ptr h),
           payload = (if is_local s addr then Unsubscription_confirmation addr h
                      else External_unsubscription addr h)\<rparr>]\<rparr>
   \<and> (rfind (length (points (w_plugin w))) (points (w_plugin w)) point = None \<longrightarrow>
        handle_unsubscription_external k d point w = Inl Assertion_failed)
   \<and> (\<forall>i. rfind (length (points (w_plugin w))) (points (w_plugin w)) point = Some i \<longrightarrow>
        i < length (points (w_plugin w)) \<and> point_eq (points (w_plugin w) ! i) point
        \<and> (\<forall>j. i < j \<and> j < length (points (w_plugin w)) \<longrightarrow> \<not> point_eq (points (w_plugin w) ! j) point)
        \<and> (let ps' = take i (points (w_plugin w)) @ drop (Suc i) (points (w_plugin w));
                w1 = w\<lparr>w_sup := (w_sup w)\<lparr>effective_queue := effective_queue (w_sup w) @
                           [\<lparr>m_address = get_address (supervisor (p_address point)),
                             payload = Commit_unsubscription point\<rparr>]\<rparr>,
                       w_plugin := (w_plugin w)\<lparr>points := ps'\<rparr>\<rparr>
            in handle_unsubscription_external k d point w =
                 (if ps' = [] then Inr (FINISHED, d ((k w1)\<lparr>w_actor := (w_actor (k w1))\<lparr>lifetime := False\<rparr>\<rparr>))
                  else Inr (CONSUMED, w1))))"
proof -
  have 1: "unsubscribe_actor addr h s =
     s\<lparr>effective_queue := effective_queue s @
         [\<lparr>m_address = address (actor_ptr h),
           payload = (if is_local s addr then Unsubscription_confirmation addr h
                      else External_unsubscription addr h)\<rparr>]\<rparr>"
    by (simp add: unsubscribe_actor_def is_local_def send_def put_def Let_def)
  have 2: "handle_unsubscription_external k d point w = Inl Assertion_failed"
    if "rfind (length (points (w_plugin w))) (points (w_plugin w)) point = None"
    using that
    by (simp add: handle_unsubscription_external_def remove_subscription_def send_def put_def Let_def)
  have 3: "let ps' = take i (points (w_plugin w)) @ drop (Suc i) (points (w_plugin w));
                w1 = w\<lparr>w_sup := (w_sup w)\<lparr>effective_queue := effective_queue (w_sup w) @
                           [\<lparr>m_address = get_address (supervisor (p_address point)),
                             payload = Commit_unsubscription point\<rparr>]\<rparr>,
                       w_plugin := (w_plugin w)\<lparr>points := ps'\<rparr>\<rparr>
            in handle_unsubscription_external k d point w =
                 (if ps' = [] then Inr (FINISHED, d ((k w1)\<lparr>w_actor := (w_actor (k w1))\<lparr>lifetime := False\<rparr>\<rparr>))
                  else Inr (CONSUMED, w1))"
    if "rfind (length (points (w_plugin w))) (points (w_plugin w)) point = Some i" for i
    using that
    by (simp add: handle_unsubscription_external_def remove_subscription_def send_def put_def Let_def)
  show ?thesis
    using 1 2 3 by (simp add: rfind_Some)
qed

text \<open>Actor A gives up its points, on its own address and on the foreign one.\<close>

lemma sample_points_differ: "\<not> point_eq point_local point_foreign"
  by (simp add: point_eq_def point_local_def point_foreign_def foreign_addr_def actor_A_def)

lemma sample_point_eq: "point_eq point_foreign point_foreign"
  by (simp add: point_eq_def handler_eq_def)

theorem unsubscribe_actor_then_commit_witness:
  "effective_queue (unsubscribe_actor (address actor_A) handler_A supervisor_1) =
     [\<lparr>m_address = address actor_A, payload = Unsubscription_confirmation (address actor_A) handler_A\<rparr>]
   \<and> effective_queue (unsubscribe_actor foreign_addr handler_A supervisor_1) =
     [\<lparr>m_address = address actor_A, payload = External_unsubscription foreign_addr handler_A\<rparr>]
   \<and> handle_unsubscription_external id id point_foreign (world_1 [point_local]) = Inl Assertion_failed
   \<and> handle_unsubscription_external id id point_foreign (world_1 [point_local, point_foreign]) =
       Inr (CONSUMED,
            \<lparr>w_actor = actor_in SHUTTING_DOWN, w_plugin = \<lparr>points = [point_local]\<rparr>,
             w_sup = supervisor_1\<lparr>effective_queue :=
               [\<lparr>m_address = get_address sup_2, payload = Commit_unsubscription point_foreign\<rparr>]\<rparr>\<rparr>)
   \<and> handle_unsubscription_external id id point_foreign (world_1 [point_foreign]) =
       Inr (FINISHED,
            \<lparr>w_actor = (actor_in SHUTTING_DOWN)\<lparr>lifetime := False\<rparr>, w_plugin = \<lparr>points = []\<rparr>,
             w_sup = supervisor_1\<lparr>effective_queue :=
               [\<lparr>m_address = get_address sup_2, payload = Commit_unsubscription point_foreign\<rparr>]\<rparr>\<rparr>)"
proof -
  note l = unsubscribe_actor_then_commit
    [of "address actor_A" handler_A supervisor_1 "world_1 [point_local]" point_foreign id id]
  note f = unsubscribe_actor_then_commit
    [of foreign_addr handler_A supervisor_1 "world_1 [point_local, point_foreign]" point_foreign id id]
  note g = unsubscribe_actor_then_commit
    [of foreign_addr handler_A supervisor_1 "world_1 [point_foreign]" point_foreign id id]
  have r0: "rfind (length (points (w_plugin (world_1 [point_local]))))
      (points (w_plugin (world_1 [point_local]))) point_foreign = None"
    by (simp add: world_1_def sample_points_differ)
  have r1: "rfind (length (points (w_plugin (world_1 [point_local, point_foreign]))))
      (points (w_plugin (world_1 [point_local, point_foreign]))) point_foreign = Some 1"
    by (simp add: world_1_def sample_point_eq)
  have r2: "rfind (length (points (w_plugin (world_1 [point_foreign]))))
      (points (w_plugin (world_1 [point_foreign]))) point_foreign = Some 0"
    by (simp add: world_1_def sample_point_eq)
  have 1: "effective_queue (unsubscribe_actor (address actor_A) handler_A supervisor_1) =
     [\<lparr>m_address = address actor_A, payload = Unsubscription_confirmation (address actor_A) handler_A\<rparr>]"
    using l sample_local by (simp add: sample_handler_actor sample_supervisor_empty)
  have 2: "effective_queue (unsubscribe_actor foreign_addr handler_A supervisor_1) =
     [\<lparr>m_address = address actor_A, payload = External_unsubscription foreign_addr handler_A\<rparr>]"
    using f sample_foreign by (simp add: sample_handler_actor sample_supervisor_empty)
  have 3: "handle_unsubscription_external id id point_foreign (world_1 [point_local]) = Inl Assertion_failed"
    using l r0 by blast
  have 4: "handle_unsubscription_external id id point_foreign (world_1 [point_local, point_foreign]) =
       Inr (CONSUMED,
            \<lparr>w_actor = actor_in SHUTTING_DOWN, w_plugin = \<lparr>points = [point_local]\<rparr>,
             w_sup = supervisor_1\<lparr>effective_queue :=
               [\<lparr>m_address = get_address sup_2, payload = Commit_unsubscription point_foreign\<rparr>]\<rparr>\<rparr>)"
    using f [THEN conjunct2, THEN conjunct2, rule_format, OF r1]
    by (simp add: world_1_def Let_def sample_supervisor_empty point_foreign_def foreign_addr_def)
  have 5: "handle_unsubscription_external id id point_foreign (world_1 [point_foreign]) =
       Inr (FINISHED,
            \<lparr>w_actor = (actor_in SHUTTING_DOWN)\<lparr>lifetime := False\<rparr>, w_plugin = \<lparr>points = []\<rparr>,
             w_sup = supervisor_1\<lparr>effective_queue :=
               [\<lparr>m_address = get_address sup_2, payload = Commit_unsubscription point_foreign\<rparr>]\<rparr>\<rparr>)"
    using g [THEN conjunct2, THEN conjunct2, rule_format, OF r2]
    by (simp add: world_1_def Let_def sample_supervisor_empty point_foreign_def foreign_addr_def)
  from 1 2 3 4 5 show ?thesis by blast
qed


section \<open>Requests: what each operation leaves unchanged\<close>

lemma response_lambda_frame [simp]:
  "self (response_lambda rid msg s) = self s"
  "subscription_map (response_lambda rid msg s) = subscription_map s"
  "request_subscriptions (response_lambda rid msg s) = request_subscriptions s"
  "made_addresses (response_lambda rid msg s) = made_addresses s"
  "last_req_id (response_lambda rid msg s) = last_req_id s"
  by (simp_all add: response_lambda_def cancel_timer_def send_def put_def Let_def split: option.splits)

lemma call_frame [simp]:
  "self (call h msg s) = self s"
  "subscription_map (call h msg s) = subscription_map s"
  "request_subscriptions (call h msg s) = request_subscriptions s"
  "made_addresses (call h msg s) = made_addresses s"
  by (simp_all add: call_def split: entry_point.splits payload_t.splits)

lemma fold_call_frame [simp]:
  "self (fold (\<lambda>h. call h msg) hs s) = self s"
  "subscription_map (fold (\<lambda>h. call h msg) hs s) = subscription_map s"
  "request_subscriptions (fold (\<lambda>h. call h msg) hs s) = request_subscriptions s"
  "made_addresses (fold (\<lambda>h. call h msg) hs s) = made_addresses s"
  by (induction hs arbitrary: s; simp)+

lemma deliver_local_frame [simp]:
  "self (deliver_local msg s) = self s"
  "subscription_map (deliver_local msg s) = subscription_map s"
  "request_subscriptions (deliver_local msg s) = request_subscriptions s"
  "made_addresses (deliver_local msg s) = made_addresses s"
  by (simp_all add: deliver_local_def split: option.splits)

lemma on_timer_trigger_frame:
  assumes "on_timer_trigger timer_id s = Inr s'"
  shows "self s' = self s" "subscription_map s' = subscription_map s"
    "request_subscriptions s' = request_subscriptions s" "made_addresses s' = made_addresses s"
  using assms
  by (auto simp add: on_timer_trigger_def put_def Let_def split: if_splits option.splits)

lemma start_shutdown_timer_frame [simp]:
  "self (start_shutdown_timer s) = self s"
  "subscription_map (start_shutdown_timer s) = subscription_map s"
  "request_subscriptions (start_shutdown_timer s) = request_subscriptions s"
  "made_addresses (start_shutdown_timer s) = made_addresses s"
  "request_map (start_shutdown_timer s) = request_map s"
  "timers (start_shutdown_timer s) = (timers s)(shutdown_timer_id \<mapsto> shutdown_timeout s)"
  by (simp_all add: start_shutdown_timer_def start_timer_def)

lemma request_self [simp]: "self (request T dst rto args d s) = self s"
  by (simp add: request_def do_request_def timeout_def install_handler_def subscribe_actor_def
      make_address_def start_timer_def put_def send_def Let_def split: option.splits)

lemma request_cached:
  assumes "request_subscriptions s (message_type T) = Some a"
  shows "request_subscriptions (request T dst rto args d s) = request_subscriptions s"
    "subscription_map (request T dst rto args d s) = subscription_map s"
    "made_addresses (request T dst rto args d s) = made_addresses s"
  using assms
  by (simp_all add: request_def do_request_def timeout_def start_timer_def put_def Let_def
      split: option.splits)

lemma request_first:
  assumes "request_subscriptions s (message_type T) = None"
  shows "request_subscriptions (request T dst rto args d s) =
           (request_subscriptions s)(message_type T \<mapsto> \<lparr>addr_id = made_addresses s, supervisor = self s\<rparr>)"
    "subscription_map (request T dst rto args d s) =
           (subscription_map s)(\<lparr>addr_id = made_addresses s, supervisor = self s\<rparr> \<mapsto>
              handlers_on s \<lparr>addr_id = made_addresses s, supervisor = self s\<rparr> @
              [wrap_handler (as_actor s) (lambda_type T)
                 (Response_lambda (message_type T) (last_req_id s + 1))])"
    "made_addresses (request T dst rto args d s) = Suc (made_addresses s)"
  using assms
  by (simp_all add: request_def do_request_def timeout_def install_handler_def subscribe_actor_def
      make_address_def start_timer_def put_def send_def subscribe_def handlers_on_def as_actor_def
      Let_def split: option.splits)

section \<open>The reply address of a response type\<close>

lemma resp_inv_request_cached:
  assumes inv: "resp_inv n s" and c: "request_subscriptions s (message_type T) = Some a"
  shows "resp_inv n (request T dst rto args d s)"
  unfolding resp_inv_def request_cached [OF c] request_self
  by (rule inv [unfolded resp_inv_def])

lemma resp_inv_fresh:
  assumes "resp_inv n s"
  shows "subscription_map s \<lparr>addr_id = made_addresses s, supervisor = self s\<rparr> = None"
proof (cases "subscription_map s \<lparr>addr_id = made_addresses s, supervisor = self s\<rparr>")
  case None
  then show ?thesis .
next
  case (Some hs)
  with assms have "addr_id \<lparr>addr_id = made_addresses s, supervisor = self s\<rparr> < made_addresses s"
    unfolding resp_inv_def by fastforce
  then show ?thesis by simp
qed

lemma resp_inv_request_first:
  assumes inv: "resp_inv n s" and c: "request_subscriptions s (message_type T) = None"
  shows "resp_inv n (request T dst rto args d s)"
proof -
  let ?a = "\<lparr>addr_id = made_addresses s, supervisor = self s\<rparr>"
  let ?h = "wrap_handler (as_actor s) (lambda_type T) (Response_lambda (message_type T) (last_req_id s + 1))"
  let ?s' = "request T dst rto args d s"
  have fresh: "handlers_on s ?a = []"
    using resp_inv_fresh [OF inv] by (simp add: handlers_on_def)
  have rs: "request_subscriptions ?s' = (request_subscriptions s)(message_type T \<mapsto> ?a)"
    and sm: "subscription_map ?s' = (subscription_map s)(?a \<mapsto> [?h])"
    and ma: "made_addresses ?s' = Suc (made_addresses s)"
    using request_first [OF c] fresh by simp_all
  have hh: "handler ?h = Response_lambda (message_type T) (last_req_id s + 1)"
    by (simp add: wrap_handler_def handler_ctor_def)
  have fin: "finite (dom (request_subscriptions s))"
    and cnt: "made_addresses s = n + card (dom (request_subscriptions s))"
    and old: "\<And>mt a. request_subscriptions s mt = Some a \<Longrightarrow>
             supervisor a = self s \<and> addr_id a < made_addresses s
             \<and> (\<exists>h rid. subscription_map s a = Some [h] \<and> handler h = Response_lambda mt rid)"
    and own: "\<And>a hs. subscription_map s a = Some hs \<Longrightarrow> supervisor a = self s \<Longrightarrow>
             addr_id a < made_addresses s"
    using inv unfolding resp_inv_def by blast+
  have notin: "message_type T \<notin> dom (request_subscriptions s)"
    using c by blast
  have 1: "finite (dom (request_subscriptions ?s'))"
    using fin by (simp add: rs)
  have 2: "made_addresses ?s' = n + card (dom (request_subscriptions ?s'))"
    using fin notin cnt by (simp add: rs ma)
  have 3: "supervisor a = self ?s' \<and> addr_id a < made_addresses ?s'
        \<and> (\<exists>h rid. subscription_map ?s' a = Some [h] \<and> handler h = Response_lambda mt rid)"
    if "request_subscriptions ?s' mt = Some a" for mt a
  proof (cases "mt = message_type T")
    case True
    with that have "a = ?a" by (simp add: rs)
    then show ?thesis using True hh by (simp add: sm ma)
  next
    case False
    with that have o: "request_subscriptions s mt = Some a" by (simp add: rs)
    from old [OF o] have "a \<noteq> ?a" by auto
    with old [OF o] show ?thesis by (simp add: sm ma)
  qed
  have 4: "addr_id a < made_addresses ?s'"
    if "subscription_map ?s' a = Some hs" "supervisor a = self ?s'" for a hs
  proof (cases "a = ?a")
    case True
    then show ?thesis by (simp add: ma)
  next
    case False
    with that have "subscription_map s a = Some hs" "supervisor a = self s"
      by (simp_all add: sm)
    then have "addr_id a < made_addresses s" by (rule own)
    then show ?thesis by (simp add: ma)
  qed
  show ?thesis
    unfolding resp_inv_def using 1 2 3 4 by blast
qed


lemma resp_inv_frame:
  assumes "resp_inv n s"
    and "self s' = self s" "subscription_map s' = subscription_map s"
    "request_subscriptions s' = request_subscriptions s" "made_addresses s' = made_addresses s"
  shows "resp_inv n s'"
  unfolding resp_inv_def assms(2-) by (rule assms(1) [unfolded resp_inv_def])

lemma resp_inv_request: "resp_inv n s \<Longrightarrow> resp_inv n (request T dst rto args d s)"
  by (cases "request_subscriptions s (message_type T)")
    (simp_all add: resp_inv_request_first resp_inv_request_cached)

lemma request_keeps_cached:
  assumes inv: "resp_inv n s" and o: "request_subscriptions s mt = Some a"
  shows "request_subscriptions (request T dst rto args d s) mt = Some a
       \<and> subscription_map (request T dst rto args d s) a = subscription_map s a"
proof (cases "request_subscriptions s (message_type T)")
  case None
  let ?a = "\<lparr>addr_id = made_addresses s, supervisor = self s\<rparr>"
  from None o have ne: "mt \<noteq> message_type T" by auto
  from inv o have "addr_id a < made_addresses s"
    unfolding resp_inv_def by blast
  then have "a \<noteq> ?a" by auto
  with ne o show ?thesis
    by (simp add: request_first [OF None])
next
  case (Some b)
  with o show ?thesis by (simp add: request_cached [OF Some])
qed

lemma request_dom:
  "dom (request_subscriptions (request T dst rto args d s)) =
     insert (message_type T) (dom (request_subscriptions s))"
proof (cases "request_subscriptions s (message_type T)")
  case None
  then show ?thesis by (simp add: request_first [OF None])
next
  case (Some b)
  then show ?thesis by (auto simp add: request_cached [OF Some])
qed

lemma resp_step:
  assumes inv: "resp_inv n s" and st: "step e s = Inr s'"
  shows "resp_inv n s'"
    and "dom (request_subscriptions s') = dom (request_subscriptions s) \<union> set (requested_types [e])"
    and "request_subscriptions s mt = Some a \<Longrightarrow>
           request_subscriptions s' mt = Some a \<and> subscription_map s' a = subscription_map s a"
proof -
  have "resp_inv n s'
      \<and> dom (request_subscriptions s') = dom (request_subscriptions s) \<union> set (requested_types [e])
      \<and> (request_subscriptions s mt = Some a \<longrightarrow>
           request_subscriptions s' mt = Some a \<and> subscription_map s' a = subscription_map s a)"
  proof (cases e)
    case (Ev_request T dst rto args d)
    with st have s': "s' = request T dst rto args d s" by simp
    have "resp_inv n s'"
      unfolding s' using inv by (rule resp_inv_request)
    moreover have "dom (request_subscriptions s') =
        dom (request_subscriptions s) \<union> set (requested_types [e])"
      unfolding s' Ev_request by (simp add: request_dom)
    moreover have "request_subscriptions s mt = Some a \<longrightarrow>
           request_subscriptions s' mt = Some a \<and> subscription_map s' a = subscription_map s a"
      unfolding s' using request_keeps_cached [OF inv] by blast
    ultimately show ?thesis by blast
  next
    case (Ev_deliver msg)
    with st have s': "s' = deliver_local msg s" by simp
    have "resp_inv n s'"
      using inv unfolding s' by (rule resp_inv_frame) simp_all
    then show ?thesis
      unfolding s' Ev_deliver by simp
  next
    case (Ev_timer timer_id)
    with st have t: "on_timer_trigger timer_id s = Inr s'" by simp
    have "resp_inv n s'"
      using inv by (rule resp_inv_frame) (simp_all add: on_timer_trigger_frame [OF t])
    then show ?thesis
      unfolding Ev_timer by (simp add: on_timer_trigger_frame [OF t])
  next
    case Ev_shutdown
    with st have s': "s' = start_shutdown_timer s" by simp
    have "resp_inv n s'"
      using inv unfolding s' by (rule resp_inv_frame) simp_all
    then show ?thesis
      unfolding s' Ev_shutdown by simp
  qed
  then show "resp_inv n s'"
    and "dom (request_subscriptions s') = dom (request_subscriptions s) \<union> set (requested_types [e])"
    and "request_subscriptions s mt = Some a \<Longrightarrow>
           request_subscriptions s' mt = Some a \<and> subscription_map s' a = subscription_map s a"
    by blast+
qed

lemma requested_types_Cons:
  "set (requested_types (e # es)) = set (requested_types [e]) \<union> set (requested_types es)"
  by (cases e) simp_all

lemma resp_run:
  assumes "resp_inv n s" "run evs s = Inr s'"
  shows "resp_inv n s'
       \<and> dom (request_subscriptions s') = dom (request_subscriptions s) \<union> set (requested_types evs)
       \<and> (\<forall>mt a. request_subscriptions s mt = Some a \<longrightarrow>
             request_subscriptions s' mt = Some a \<and> subscription_map s' a = subscription_map s a)"
  using assms
proof (induction evs arbitrary: s)
  case Nil
  then show ?case by simp
next
  case (Cons e evs)
  from Cons.prems(2) obtain s1 where 1: "step e s = Inr s1" and 2: "run evs s1 = Inr s'"
    by (auto split: sum.splits)
  note st = resp_step [OF Cons.prems(1) 1]
  note ih = Cons.IH [OF st(1) 2]
  have "dom (request_subscriptions s') =
      (dom (request_subscriptions s) \<union> set (requested_types [e])) \<union> set (requested_types evs)"
    unfolding st(2) [symmetric] using ih by blast
  then have "dom (request_subscriptions s') =
      dom (request_subscriptions s) \<union> set (requested_types (e # evs))"
    unfolding requested_types_Cons [of e evs] Un_assoc .
  moreover have "request_subscriptions s' mt = Some a \<and> subscription_map s' a = subscription_map s a"
    if "request_subscriptions s mt = Some a" for mt a
    using st(3) [OF that] ih by metis
  ultimately show ?case using ih by blast
qed

lemma resp_inv_new: "resp_inv n (new_supervisor r i n d)"
  by (simp add: resp_inv_def new_supervisor_def)

lemma do_request_first:
  assumes "request_subscriptions s (message_type T) = None"
  shows "do_install_handler (fst (do_request T dst rto args s))"
    and "imaginary_address (fst (do_request T dst rto args s)) =
           \<lparr>addr_id = made_addresses s, supervisor = self s\<rparr>"
    and "request_subscriptions (snd (do_request T dst rto args s)) =
           (request_subscriptions s)(message_type T \<mapsto> \<lparr>addr_id = made_addresses s, supervisor = self s\<rparr>)"
    and "made_addresses (snd (do_request T dst rto args s)) = Suc (made_addresses s)"
  using assms by (simp_all add: do_request_def make_address_def Let_def)

lemma do_request_cached:
  assumes "request_subscriptions s (message_type T) = Some a"
  shows "\<not> do_install_handler (fst (do_request T dst rto args s))"
    and "imaginary_address (fst (do_request T dst rto args s)) = a"
    and "request_subscriptions (snd (do_request T dst rto args s)) = request_subscriptions s"
    and "made_addresses (snd (do_request T dst rto args s)) = made_addresses s"
  using assms by (simp_all add: do_request_def Let_def)

text \<open>
  C3. In every run of a supervisor from its construction: the addresses made for
  replies are as many as the distinct response types requested; a type never
  requested has no cached address; every requested type has a cached address, owned
  by the supervisor, with exactly one handler on it, the response closure of that
  type; whatever happens later, the cached address stays and so do the handlers on
  it. The constructor of the builder allocates and caches the address, keyed by the
  type tag, and asks for the handler when the type has no cached address; otherwise
  it takes the cached address, allocates nothing and asks for no handler.
\<close>

theorem reply_address_once:
  assumes "run evs (new_supervisor r i n d) = Inr s"
  shows "made_addresses s = n + card (set (requested_types evs))
       \<and> (\<forall>mt. mt \<notin> set (requested_types evs) \<longrightarrow> request_subscriptions s mt = None)
       \<and> (\<forall>mt \<in> set (requested_types evs). \<exists>a h rid.
             request_subscriptions s mt = Some a \<and> is_local s a
             \<and> handlers_on s a = [h] \<and> handler h = Response_lambda mt rid)
       \<and> (\<forall>es s' mt a. run es s = Inr s' \<longrightarrow> request_subscriptions s mt = Some a \<longrightarrow>
             request_subscriptions s' mt = Some a \<and> handlers_on s' a = handlers_on s a)
       \<and> (\<forall>T dst rto args. request_subscriptions s (message_type T) = None \<longrightarrow>
             do_install_handler (fst (do_request T dst rto args s))
             \<and> imaginary_address (fst (do_request T dst rto args s)) =
                 \<lparr>addr_id = made_addresses s, supervisor = self s\<rparr>
             \<and> request_subscriptions (snd (do_request T dst rto args s)) (message_type T) =
                 Some \<lparr>addr_id = made_addresses s, supervisor = self s\<rparr>)
       \<and> (\<forall>T dst rto args a. request_subscriptions s (message_type T) = Some a \<longrightarrow>
             \<not> do_install_handler (fst (do_request T dst rto args s))
             \<and> imaginary_address (fst (do_request T dst rto args s)) = a
             \<and> made_addresses (snd (do_request T dst rto args s)) = made_addresses s
             \<and> request_subscriptions (snd (do_request T dst rto args s)) = request_subscriptions s)"
proof -
  note r = resp_run [OF resp_inv_new assms]
  from r have inv: "resp_inv n s"
    and dm: "dom (request_subscriptions s) = set (requested_types evs)"
    by (simp_all add: new_supervisor_def)
  have 1: "made_addresses s = n + card (set (requested_types evs))"
    using inv dm unfolding resp_inv_def by simp
  have 2: "request_subscriptions s mt = None" if "mt \<notin> set (requested_types evs)" for mt
    using that dm by blast
  have 3: "\<exists>a h rid. request_subscriptions s mt = Some a \<and> is_local s a
             \<and> handlers_on s a = [h] \<and> handler h = Response_lambda mt rid"
    if "mt \<in> set (requested_types evs)" for mt
  proof -
    from that dm obtain a where a: "request_subscriptions s mt = Some a" by blast
    with inv obtain h rid where "supervisor a = self s" "subscription_map s a = Some [h]"
      "handler h = Response_lambda mt rid"
      unfolding resp_inv_def by blast
    with a show ?thesis
      by (auto simp add: is_local_def handlers_on_def)
  qed
  have 4: "request_subscriptions s' mt = Some a \<and> handlers_on s' a = handlers_on s a"
    if "run es s = Inr s'" "request_subscriptions s mt = Some a" for es s' mt a
    using resp_run [OF inv that(1)] that(2) by (simp add: handlers_on_def)
  show ?thesis
    using 1 2 3 4 by (simp add: do_request_first do_request_cached)
qed

text \<open>In the sample run the types 42 (twice) and 43 are requested: two addresses
  are made, after the three that existed.\<close>

theorem reply_address_once_witness:
  "run sample_events supervisor_1 = Inr (projr (run sample_events supervisor_1))
   \<and> made_addresses (projr (run sample_events supervisor_1)) = 5
   \<and> request_subscriptions (projr (run sample_events supervisor_1)) 44 = None
   \<and> request_subscriptions (projr (run sample_events supervisor_1)) 42 = Some imaginary_1
   \<and> handlers_on (projr (run sample_events supervisor_1)) imaginary_1 =
       [wrap_handler (as_actor supervisor_1) (lambda_type ping_traits) (Response_lambda 42 1)]"
proof -
  let ?s = "projr (run sample_events supervisor_1)"
  have ev: "run sample_events (new_supervisor sup_1 0 3 100) = Inr ?s"
    by (simp add: sample_events_def sample_defs op_defs Let_def)
  have ty: "set (requested_types sample_events) = {42, 43}"
    by (auto simp add: sample_events_def request_1_def request_2_def ping_traits_def pong_traits_def)
  note t = reply_address_once [OF ev]
  from t have "made_addresses ?s = 3 + card (set (requested_types sample_events))"
    by blast
  then have 1: "made_addresses ?s = 5"
    by (simp add: ty)
  from t have "\<forall>mt. mt \<notin> set (requested_types sample_events) \<longrightarrow> request_subscriptions ?s mt = None"
    by blast
  then have 2: "request_subscriptions ?s 44 = None"
    by (simp add: ty)
  have 3: "request_subscriptions ?s 42 = Some imaginary_1"
    by (simp add: sample_events_def sample_defs op_defs Let_def pong_traits_def)
  have 4: "handlers_on ?s imaginary_1 =
       [wrap_handler (as_actor supervisor_1) (lambda_type ping_traits) (Response_lambda 42 1)]"
    by (simp add: sample_events_def sample_defs op_defs handlers_on_def Let_def pong_traits_def)
  from ev 1 2 3 4 show ?thesis
    by (simp add: supervisor_1_def)
qed

section \<open>Request map and timers\<close>

lemma response_lambda_None:
  "request_map s rid = None \<Longrightarrow> response_lambda rid msg s = s"
  by (simp add: response_lambda_def)

lemma response_lambda_Some:
  "request_map s rid = Some stored \<Longrightarrow>
   response_lambda rid msg s =
     s\<lparr>timers := (timers s)(rid := None),
       effective_queue := effective_queue s @ [\<lparr>m_address = m_address stored, payload = payload msg\<rparr>],
       request_map := (request_map s)(rid := None)\<rparr>"
  by (simp add: response_lambda_def cancel_timer_def send_def put_def Let_def)

lemma timer_inv_response_lambda:
  assumes "timer_inv s"
  shows "timer_inv (response_lambda rid msg s)"
proof (cases "request_map s rid")
  case None
  then have "response_lambda rid msg s = s" by (rule response_lambda_None)
  with assms show ?thesis by simp
next
  case (Some stored)
  from assms show ?thesis
    by (simp add: response_lambda_Some [OF Some] timer_inv_def)
qed

lemma timer_inv_call: "timer_inv s \<Longrightarrow> timer_inv (call h msg s)"
  by (simp add: call_def timer_inv_response_lambda split: entry_point.splits payload_t.splits)

lemma timer_inv_deliver_local: "timer_inv s \<Longrightarrow> timer_inv (deliver_local msg s)"
proof -
  have "timer_inv s \<Longrightarrow> timer_inv (fold (\<lambda>h. call h msg) hs s)" for hs
    by (induction hs arbitrary: s) (simp_all add: timer_inv_call)
  then show "timer_inv s \<Longrightarrow> timer_inv (deliver_local msg s)"
    by (simp add: deliver_local_def split: option.splits)
qed

lemma request_maps:
  "request_map (request T dst rto args d s) rid = None \<longleftrightarrow>
     rid \<noteq> last_req_id s + 1 \<and> request_map s rid = None"
  "timers (request T dst rto args d s) rid = None \<longleftrightarrow>
     rid \<noteq> last_req_id s + 1 \<and> timers s rid = None"
  by (simp_all add: request_def do_request_def timeout_def install_handler_def subscribe_actor_def
      make_address_def start_timer_def put_def send_def Let_def split: option.splits)

lemma timer_inv_request: "timer_inv s \<Longrightarrow> timer_inv (request T dst rto args d s)"
  by (simp add: timer_inv_def request_maps)

lemma on_timer_trigger_maps:
  assumes "on_timer_trigger timer_id s = Inr s'"
  shows "request_map s' = (request_map s)(timer_id := None)"
    and "timers s' = (timers s)(timer_id := None)"
proof -
  from assms have ne: "timer_id \<noteq> shutdown_timer_id"
    by (auto simp add: on_timer_trigger_def Let_def split: if_splits)
  show "request_map s' = (request_map s)(timer_id := None)"
  proof (cases "request_map s timer_id")
    case None
    with assms ne show ?thesis
      by (auto simp add: on_timer_trigger_def Let_def)
  next
    case (Some stored)
    with assms ne show ?thesis
      by (auto simp add: on_timer_trigger_def put_def Let_def)
  qed
  show "timers s' = (timers s)(timer_id := None)"
  proof (cases "request_map s timer_id")
    case None
    with assms ne show ?thesis
      by (auto simp add: on_timer_trigger_def Let_def)
  next
    case (Some stored)
    with assms ne show ?thesis
      by (auto simp add: on_timer_trigger_def put_def Let_def)
  qed
qed

lemma timer_inv_on_timer_trigger:
  assumes "timer_inv s" "on_timer_trigger timer_id s = Inr s'"
  shows "timer_inv s'"
  using assms(1) by (simp add: timer_inv_def on_timer_trigger_maps [OF assms(2)])

lemma timer_inv_start_shutdown_timer: "timer_inv s \<Longrightarrow> timer_inv (start_shutdown_timer s)"
  by (simp add: timer_inv_def)

lemma timer_inv_step: "timer_inv s \<Longrightarrow> step e s = Inr s' \<Longrightarrow> timer_inv s'"
  by (cases e)
    (auto simp add: timer_inv_request timer_inv_deliver_local timer_inv_on_timer_trigger
      timer_inv_start_shutdown_timer)

lemma timer_inv_run: "timer_inv s \<Longrightarrow> run evs s = Inr s' \<Longrightarrow> timer_inv s'"
proof (induction evs arbitrary: s)
  case Nil
  then show ?case by simp
next
  case (Cons e evs)
  from Cons.prems(2) obtain s1 where 1: "step e s = Inr s1" and 2: "run evs s1 = Inr s'"
    by (auto split: sum.splits)
  from Cons.prems(1) 1 have "timer_inv s1" by (rule timer_inv_step)
  then show ?case using 2 by (rule Cons.IH)
qed

lemma timer_inv_new: "timer_inv (new_supervisor r i n d)"
  by (simp add: timer_inv_def new_supervisor_def)

lemma timeout_arms:
  "request_map (timeout d b s) (b_request_id b) \<noteq> None"
  "timers (timeout d b s) (b_request_id b) = Some d"
  by (simp_all add: timeout_def install_handler_def subscribe_actor_def start_timer_def put_def
      send_def Let_def split: option.splits)

text \<open>
  C4. In every run from a state in which it holds (the state after construction is
  one), an id other than \<open>shutdown_timer_id\<close> has an entry in \<open>request_map\<close>
  exactly when a timer with that id is armed. \<open>timeout\<close> leaves both an entry and an
  armed timer for its request id; the response closure, when it finds the entry of
  its id, erases the entry and cancels the timer of that id, and otherwise changes
  nothing; the shutdown timer is armed under the id 0 and leaves \<open>request_map\<close> as
  it is.
\<close>

theorem request_map_entry_iff_timer:
  assumes "timer_inv s0" and "run evs s0 = Inr s"
  shows "(\<forall>rid. rid \<noteq> shutdown_timer_id \<longrightarrow> (request_map s rid \<noteq> None) = (timers s rid \<noteq> None))
       \<and> timer_inv (new_supervisor r i n d)
       \<and> request_map (timeout d' b s) (b_request_id b) \<noteq> None
       \<and> timers (timeout d' b s) (b_request_id b) = Some d'
       \<and> (request_map s rid \<noteq> None \<longrightarrow>
            request_map (response_lambda rid msg s) rid = None
            \<and> timers (response_lambda rid msg s) rid = None)
       \<and> (request_map s rid = None \<longrightarrow> response_lambda rid msg s = s)
       \<and> request_map (start_shutdown_timer s) = request_map s
       \<and> timers (start_shutdown_timer s) shutdown_timer_id = Some (shutdown_timeout s)"
proof -
  have "timer_inv s"
    using assms by (rule timer_inv_run)
  then have 1: "\<forall>rid. rid \<noteq> shutdown_timer_id \<longrightarrow> (request_map s rid \<noteq> None) = (timers s rid \<noteq> None)"
    unfolding timer_inv_def by simp
  have 2: "request_map s rid \<noteq> None \<longrightarrow>
           request_map (response_lambda rid msg s) rid = None \<and> timers (response_lambda rid msg s) rid = None"
  proof
    assume "request_map s rid \<noteq> None"
    then obtain stored where "request_map s rid = Some stored" by blast
    then show "request_map (response_lambda rid msg s) rid = None \<and> timers (response_lambda rid msg s) rid = None"
      by (simp add: response_lambda_Some)
  qed
  have 3: "request_map s rid = None \<longrightarrow> response_lambda rid msg s = s"
    by (simp add: response_lambda_None)
  show ?thesis
    using 1 2 3 by (simp add: timer_inv_new timeout_arms)
qed

text \<open>After the sample run the third request is pending: it has its entry and its
  timer. The second request has neither, and the shutdown timer is armed with no
  entry.\<close>

theorem request_map_entry_iff_timer_witness:
  "timer_inv supervisor_1
   \<and> run sample_events supervisor_1 = Inr (projr (run sample_events supervisor_1))
   \<and> timers (projr (run sample_events supervisor_1)) 3 = Some 50
   \<and> request_map (projr (run sample_events supervisor_1)) 3 \<noteq> None
   \<and> timers (projr (run sample_events supervisor_1)) 2 = None
   \<and> request_map (projr (run sample_events supervisor_1)) 2 = None
   \<and> timers (projr (run sample_events supervisor_1)) shutdown_timer_id = Some 100
   \<and> request_map (projr (run sample_events supervisor_1)) shutdown_timer_id = None"
proof -
  let ?s = "projr (run sample_events supervisor_1)"
  have i: "timer_inv supervisor_1"
    by (simp add: supervisor_1_def timer_inv_new)
  have ev: "run sample_events supervisor_1 = Inr ?s"
    by (simp add: sample_events_def sample_defs op_defs Let_def)
  have t3: "timers ?s 3 = Some 50" and t2: "timers ?s 2 = None"
    and t0: "timers ?s shutdown_timer_id = Some 100"
    and r0: "request_map ?s shutdown_timer_id = None"
    by (simp_all add: sample_events_def sample_defs op_defs Let_def pong_traits_def)
  from request_map_entry_iff_timer [OF i ev]
  have iff: "\<forall>rid. rid \<noteq> shutdown_timer_id \<longrightarrow> (request_map ?s rid \<noteq> None) = (timers ?s rid \<noteq> None)"
    by blast
  have ne: "(3 :: timer_id_t) \<noteq> shutdown_timer_id" "(2 :: timer_id_t) \<noteq> shutdown_timer_id"
    by (simp_all add: shutdown_timer_id_def)
  from iff [rule_format, OF ne(1)] t3 have r3: "request_map ?s 3 \<noteq> None"
    by simp
  from iff [rule_format, OF ne(2)] t2 have r2: "request_map ?s 2 = None"
    by simp
  from i ev t3 r3 t2 r2 t0 r0 show ?thesis by blast
qed

section \<open>The response closure and the request it was installed for\<close>

text \<open>
  C2: the code at an input where it leaves the claim. Actor A sends two requests
  with the same response type; the closure subscribed on the reply address is the one
  of the first request and has captured the id 1. The answer to the first request is
  delivered. When the answer to the second request arrives, \<open>request_map\<close> still has
  the entry of its id 2 and the timer 2 is armed, but the closure looks up the id 1,
  finds nothing and drops the answer: the supervisor is left unchanged and the caller
  sees nothing for request 2.
\<close>

theorem response_dropped_though_entry_present:
  "(case run [request_1, request_2, Ev_deliver reply_1] supervisor_1 of
      Inr s \<Rightarrow> request_map s 2 \<noteq> None \<and> timers s 2 = Some 50
             \<and> handlers_on s (m_address reply_2) =
                 [wrap_handler (as_actor supervisor_1) (lambda_type ping_traits) (Response_lambda 42 1)]
             \<and> deliver_local reply_2 s = s
             \<and> observed (address actor_A) 2 (deliver_local reply_2 s) = []
    | Inl e \<Rightarrow> False)"
  by (simp add: sample_defs op_defs handlers_on_def observed_def Let_def)

text \<open>
  C1: the code at an input where it leaves the claim. Actor A sends the same two
  requests; now the answer to the second arrives first. The closure, which looks up
  the id 1, forwards that answer to the caller, cancels timer 1 and erases entry 1.
  The answer to the first request then finds no entry and is dropped, and timer 2,
  still armed, fires and delivers the timeout of request 2. For request 1 the caller
  sees neither a response nor a timeout; for request 2 it sees both.
\<close>

theorem response_and_timeout_neither_or_both:
  "(case run [request_1, request_2, Ev_deliver reply_2, Ev_deliver reply_1, Ev_timer 2, Ev_timer 1]
           supervisor_1 of
      Inr s \<Rightarrow> observed (address actor_A) 1 s = []
             \<and> observed (address actor_A) 2 s =
                 [\<lparr>ec = None, req = \<lparr>request_id = 2, reply_to = imaginary_1, request_args = 20\<rparr>,
                   res = Some 21\<rparr>,
                  \<lparr>ec = Some request_timeout,
                   req = \<lparr>request_id = 2, reply_to = imaginary_1, request_args = 20\<rparr>, res = None\<rparr>]
    | Inl e \<Rightarrow> False)"
  by (simp add: sample_defs op_defs observed_def Let_def)

end
